theory Spec2Isabelle
  imports Complex_Main
begin

section \<open>Python values and exceptions\<close>

text \<open>
  The module \<^verbatim>\<open>backend/agent.py\<close> defines the class \<^verbatim>\<open>HealthcareAgent\<close>.
  Its methods \<^verbatim>\<open>parse_hl7_message\<close>, \<^verbatim>\<open>convert_fhir_to_hl7\<close> and
  \<^verbatim>\<open>call_external_api\<close> are embedded below. A Python \<^verbatim>\<open>str\<close> is a
  \<^typ>\<open>string\<close>; an exception that the interpreter would raise is a value
  \<open>Inl e\<close> of the result type, a normal return is \<open>Inr v\<close>. The elements of a
  \<^typ>\<open>string\<close> are bytes, and a text is its UTF-8 encoding: splitting at the ASCII
  characters carriage return, \<^verbatim>\<open>|\<close> and \<^verbatim>\<open>^\<close> and joining are the same on bytes
  as on characters; where the program takes the first character of a string or the
  capitals of its characters, the bytes are grouped into characters.
\<close>

datatype py_error =
    IndexError
  | KeyError
  | TypeError
  | AttributeError

text \<open>Sequencing of two computations that may raise: the first exception wins.\<close>

definition and_then :: "py_error + 'a \<Rightarrow> ('a \<Rightarrow> py_error + 'b) \<Rightarrow> py_error + 'b" where
  "and_then m f = (case m of Inl e \<Rightarrow> Inl e | Inr v \<Rightarrow> f v)"

text \<open>\<^verbatim>\<open>xs[i]\<close> for a constant index \<open>i \<ge> 0\<close>: IndexError out of range.\<close>

definition getitem :: "'a list \<Rightarrow> nat \<Rightarrow> py_error + 'a" where
  "getitem xs i = (if i < length xs then Inr (xs ! i) else Inl IndexError)"

text \<open>
  \<^verbatim>\<open>s.split(sep)\<close> for a separator of one character: the pieces between the
  occurrences of \<open>sep\<close>, empty pieces kept, so the result has one more element than
  \<open>s\<close> has separators and is never empty (\<^verbatim>\<open>"".split("|") == [""]\<close>).
\<close>

fun str_split :: "char \<Rightarrow> string \<Rightarrow> string list" where
  "str_split sep [] = [[]]"
| "str_split sep (c # cs) =
     (if c = sep then [] # str_split sep cs
      else (case str_split sep cs of
              [] \<Rightarrow> [[c]]
            | w # ws \<Rightarrow> (c # w) # ws))"

definition CR :: char where
  "CR = CHR 0x0D"

text \<open>
  A character outside ASCII is the sequence of its UTF-8 bytes: a first byte, then
  continuation bytes (those of the form \<^verbatim>\<open>10xxxxxx\<close>). \<open>utf8_chars s\<close> is the list of
  the characters of \<open>s\<close>, each with its bytes.
\<close>

definition utf8_continuation :: "char \<Rightarrow> bool" where
  "utf8_continuation c \<longleftrightarrow> digit7 c \<and> \<not> digit6 c"

function utf8_chars :: "string \<Rightarrow> string list" where
  "utf8_chars [] = []"
| "utf8_chars (c # cs) =
     (c # takeWhile utf8_continuation cs) # utf8_chars (dropWhile utf8_continuation cs)"
  by pat_completeness auto
termination
  by (relation "measure length") (simp_all add: length_dropWhile_le less_Suc_eq_le)

section \<open>The HL7-to-record parser\<close>

text \<open>
  The observation dictionaries have the three fixed keys \<^verbatim>\<open>id\<close>, \<^verbatim>\<open>value\<close> and
  \<^verbatim>\<open>units\<close>; \<^verbatim>\<open>units\<close> is \<^verbatim>\<open>None\<close> when the segment has no field 6.
  The result dictionary maps a key to a string or to the list of observations.
\<close>

datatype observation =
  Observation (obs_id: string) (obs_value: string) (obs_units: "string option")

datatype pvalue = PStr string | PObs "observation list"

type_synonym parsed_record = "string \<rightharpoonup> pvalue"

text \<open>
  The branch for a \<^verbatim>\<open>PID\<close> segment (lines 61 to 66). The inner test
  \<^verbatim>\<open>len(fields) > 5\<close> of line 63 is kept as written.
\<close>

definition parse_pid :: "parsed_record \<Rightarrow> string list \<Rightarrow> py_error + parsed_record" where
  "parse_pid result fields =
     (if length fields > 5 then
        and_then (getitem fields 3) (\<lambda>f3.
        let result1 = result(''patient_id'' \<mapsto> PStr f3) in
        and_then (if length fields > 5
                  then and_then (getitem fields 5) (\<lambda>f5. Inr (str_split (CHR ''^'') f5))
                  else Inr []) (\<lambda>name_parts.
        if length name_parts \<ge> 2 then
          and_then (getitem name_parts 0) (\<lambda>n0.
          and_then (getitem name_parts 1) (\<lambda>n1.
          Inr (result1(''last_name'' \<mapsto> PStr n0, ''first_name'' \<mapsto> PStr n1))))
        else Inr result1))
      else Inr result)"

text \<open>
  The branch for an \<^verbatim>\<open>OBX\<close> segment (lines 69 to 76). In
  \<^verbatim>\<open>result["observations"].append({...})\<close> Python first looks the key up
  (KeyError when missing), then finds \<^verbatim>\<open>append\<close> on the value (AttributeError
  on a string), and only then builds the argument.
\<close>

definition parse_obx :: "parsed_record \<Rightarrow> string list \<Rightarrow> py_error + parsed_record" where
  "parse_obx result fields =
     (if length fields > 5 then
        let result1 = (if result ''observations'' = None
                       then result(''observations'' \<mapsto> PObs [])
                       else result) in
        (case result1 ''observations'' of
           None \<Rightarrow> Inl KeyError
         | Some (PStr s) \<Rightarrow> Inl AttributeError
         | Some (PObs obs) \<Rightarrow>
             and_then (getitem fields 3) (\<lambda>f3.
             and_then (getitem fields 5) (\<lambda>f5.
             and_then (if length fields > 6
                       then and_then (getitem fields 6) (\<lambda>f6. Inr (Some f6))
                       else Inr None) (\<lambda>u.
             Inr (result1(''observations'' \<mapsto> PObs (obs @ [Observation f3 f5 u])))))))
      else Inr result)"

text \<open>The body of the loop over the segments (lines 54 to 76).\<close>

definition parse_segment :: "parsed_record \<Rightarrow> string \<Rightarrow> py_error + parsed_record" where
  "parse_segment result segment =
     (if segment = [] then Inr result
      else
        let fields = str_split (CHR ''|'') segment in
        and_then (getitem fields 0) (\<lambda>segment_type.
        if segment_type = ''PID'' then parse_pid result fields
        else if segment_type = ''OBX'' then parse_obx result fields
        else Inr result))"

fun parse_segments :: "parsed_record \<Rightarrow> string list \<Rightarrow> py_error + parsed_record" where
  "parse_segments result [] = Inr result"
| "parse_segments result (segment # segments) =
     and_then (parse_segment result segment) (\<lambda>result1. parse_segments result1 segments)"

definition parse_hl7_message :: "string \<Rightarrow> py_error + parsed_record" where
  "parse_hl7_message hl7_message = parse_segments Map.empty (str_split CR hl7_message)"


section \<open>The record-to-HL7 serializer\<close>

text \<open>
  \<^verbatim>\<open>fhir_data\<close> is a \<^verbatim>\<open>Dict[str, Any]\<close> decoded from JSON, so its values are
  arbitrary JSON values. A dictionary is an association list read with \<^const>\<open>map_of\<close>.
  A finite float is a \<^typ>\<open>real\<close>; the code only tests it for truth (NaN and the
  infinities, which are true, have no value here).
\<close>

datatype json =
    JNull
  | JBool bool
  | JInt int
  | JFloat real
  | JStr string
  | JList "json list"
  | JDict "(string \<times> json) list"

text \<open>The truth value of \<^verbatim>\<open>if v\<close>.\<close>

fun truthy :: "json \<Rightarrow> bool" where
  "truthy JNull = False"
| "truthy (JBool b) = b"
| "truthy (JInt i) = (i \<noteq> 0)"
| "truthy (JFloat r) = (r \<noteq> 0)"
| "truthy (JStr s) = (s \<noteq> [])"
| "truthy (JList xs) = (xs \<noteq> [])"
| "truthy (JDict kvs) = (kvs \<noteq> [])"

text \<open>
  \<^verbatim>\<open>v[0]\<close>: the first element of a list, the first character of a string,
  KeyError on a dictionary (its keys are strings, never the integer 0), TypeError on
  the values that are not subscriptable.
\<close>

fun subscript0 :: "json \<Rightarrow> py_error + json" where
  "subscript0 (JList xs) = (case xs of [] \<Rightarrow> Inl IndexError | x # _ \<Rightarrow> Inr x)"
| "subscript0 (JStr s) =
     (case utf8_chars s of [] \<Rightarrow> Inl IndexError | cp # _ \<Rightarrow> Inr (JStr cp))"
| "subscript0 (JDict kvs) = Inl KeyError"
| "subscript0 v = Inl TypeError"

text \<open>\<^verbatim>\<open>d.get(key, default)\<close> on a dictionary.\<close>

definition dict_get :: "(string \<times> json) list \<Rightarrow> string \<Rightarrow> json \<Rightarrow> json" where
  "dict_get d key dflt = (case map_of d key of None \<Rightarrow> dflt | Some v \<Rightarrow> v)"

text \<open>
  A value interpolated into an f-string is formatted by \<^verbatim>\<open>str\<close>: a string is
  itself; for every other value \<^verbatim>\<open>str\<close> is the interpreter's total printing
  function, which is not part of this program and is the parameter \<open>fmt\<close>.
\<close>

fun str_of :: "(json \<Rightarrow> string) \<Rightarrow> json \<Rightarrow> string" where
  "str_of fmt (JStr s) = s"
| "str_of fmt v = fmt v"

text \<open>\<^verbatim>\<open>sep.join(xs)\<close>.\<close>

fun join :: "string \<Rightarrow> string list \<Rightarrow> string" where
  "join sep [] = []"
| "join sep [x] = x"
| "join sep (x # y # ys) = x @ sep @ join sep (y # ys)"

definition MSH_header :: string where
  "MSH_header =
     ''MSH|^~'' @ [CHR 0x5C] @ ''&|SENDING_APP|SENDING_FACILITY|RECEIVING_APP|RECEIVING_FACILITY|20230615120000||ADT^A01|MSG00001|P|2.5''"

text \<open>
  Lines 92 to 94. The first operation on \<^verbatim>\<open>name\<close> is \<^verbatim>\<open>name.get\<close>, which only
  a dictionary has (AttributeError otherwise); the result is the pair of
  \<^verbatim>\<open>family\<close> and \<^verbatim>\<open>given\<close>.
\<close>

definition name_components :: "json \<Rightarrow> py_error + json \<times> json" where
  "name_components name =
     (case name of
        JDict kvs \<Rightarrow>
          let family = dict_get kvs ''family'' (JStr []) in
          and_then (if map_of kvs ''given'' \<noteq> None \<and> truthy (dict_get kvs ''given'' JNull)
                    then subscript0 (dict_get kvs ''given'' (JList [JStr []]))
                    else Inr (JStr [])) (\<lambda>given.
          Inr (family, given))
      | _ \<Rightarrow> Inl AttributeError)"

definition convert_fhir_to_hl7 :: "(json \<Rightarrow> string) \<Rightarrow> (string \<times> json) list \<Rightarrow> py_error + string" where
  "convert_fhir_to_hl7 fmt fhir_data =
     (let hl7_message = [MSH_header] in
      and_then
        (if map_of fhir_data ''name'' \<noteq> None \<and> truthy (dict_get fhir_data ''name'' JNull) then
           and_then (subscript0 (dict_get fhir_data ''name'' JNull)) (\<lambda>name.
           and_then (name_components name) (\<lambda>(family, given).
           let patient_id = dict_get fhir_data ''id'' (JStr []);
               gender = dict_get fhir_data ''gender'' (JStr []);
               birth_date = dict_get fhir_data ''birthDate'' (JStr [])
           in Inr (hl7_message @
                [''PID|||'' @ str_of fmt patient_id @ ''||'' @ str_of fmt family @ ''^'' @
                 str_of fmt given @ ''||'' @ str_of fmt birth_date @ ''|'' @ str_of fmt gender])))
         else Inr hl7_message)
        (\<lambda>hl7_message. Inr (join [CR] hl7_message)))"

section \<open>The generic outbound call\<close>

text \<open>
  \<^verbatim>\<open>str.upper\<close> maps every character of the string to its capital, which may be
  several characters long, whatever the characters around it. On ASCII the 26 lower-case
  letters go to their capitals and every other character stays. Outside ASCII, the
  capital of ten characters is ASCII text: of \<^verbatim>\<open>U+00DF\<close> (sharp s), \<^verbatim>\<open>U+0131\<close>
  (dotless i), \<^verbatim>\<open>U+017F\<close> (long s) and of the seven ligatures \<^verbatim>\<open>U+FB00\<close> to
  \<^verbatim>\<open>U+FB06\<close>; they are the table \<open>upper_specials\<close>. The capital of every other
  character outside ASCII contains a character outside ASCII, and these capitals are not
  tabulated: such a character keeps its bytes. So \<open>upper s\<close> is \<^verbatim>\<open>s.upper()\<close>
  whenever one of the two is ASCII text, and both are outside ASCII otherwise; the
  program only compares \<^verbatim>\<open>method.upper()\<close> with four ASCII names.
\<close>

definition char_upper :: "char \<Rightarrow> char" where
  "char_upper c =
     (case map_of (zip ''abcdefghijklmnopqrstuvwxyz'' ''ABCDEFGHIJKLMNOPQRSTUVWXYZ'') c of
        None \<Rightarrow> c
      | Some u \<Rightarrow> u)"

definition upper_specials :: "(string \<times> string) list" where
  "upper_specials =
     [([CHR 0xC3, CHR 0x9F], ''SS''),
      ([CHR 0xC4, CHR 0xB1], ''I''),
      ([CHR 0xC5, CHR 0xBF], ''S''),
      ([CHR 0xEF, CHR 0xAC, CHR 0x80], ''FF''),
      ([CHR 0xEF, CHR 0xAC, CHR 0x81], ''FI''),
      ([CHR 0xEF, CHR 0xAC, CHR 0x82], ''FL''),
      ([CHR 0xEF, CHR 0xAC, CHR 0x83], ''FFI''),
      ([CHR 0xEF, CHR 0xAC, CHR 0x84], ''FFL''),
      ([CHR 0xEF, CHR 0xAC, CHR 0x85], ''ST''),
      ([CHR 0xEF, CHR 0xAC, CHR 0x86], ''ST'')]"

definition cp_upper :: "string \<Rightarrow> string" where
  "cp_upper cp = (case map_of upper_specials cp of Some u \<Rightarrow> u | None \<Rightarrow> map char_upper cp)"

definition upper :: "string \<Rightarrow> string" where
  "upper s = concat (map cp_upper (utf8_chars s))"



datatype 'e http_response =
  Response (raise_for_status: "'e option") (content: string) (json_body: "'e + json")





section \<open>Vocabulary of the properties\<close>

text \<open>
  The segments of a message are the pieces \<open>str_split CR m\<close>, in order. The following
  read one segment the way the loop body does: its fields, its type code (field 0),
  whether it is a \<^verbatim>\<open>PID\<close> or an \<^verbatim>\<open>OBX\<close> segment with more than 5 fields, the caret
  components of field 5, and the observation an \<^verbatim>\<open>OBX\<close> segment stands for.
\<close>

definition seg_fields :: "string \<Rightarrow> string list" where
  "seg_fields segment = str_split (CHR ''|'') segment"

definition seg_type :: "string \<Rightarrow> string" where
  "seg_type segment = (case seg_fields segment of [] \<Rightarrow> [] | t # _ \<Rightarrow> t)"

definition is_pid :: "string \<Rightarrow> bool" where
  "is_pid segment \<longleftrightarrow> seg_type segment = ''PID'' \<and> length (seg_fields segment) > 5"

definition is_obx :: "string \<Rightarrow> bool" where
  "is_obx segment \<longleftrightarrow> seg_type segment = ''OBX'' \<and> length (seg_fields segment) > 5"

definition name_parts_of :: "string \<Rightarrow> string list" where
  "name_parts_of segment = str_split (CHR ''^'') (seg_fields segment ! 5)"

definition has_name :: "string \<Rightarrow> bool" where
  "has_name segment \<longleftrightarrow> is_pid segment \<and> length (name_parts_of segment) \<ge> 2"

definition observation_of :: "string \<Rightarrow> observation" where
  "observation_of segment =
     (let fields = seg_fields segment in
      Observation (fields ! 3) (fields ! 5)
        (if length fields > 6 then Some (fields ! 6) else None))"

text \<open>
  Reading the outcome of a parse: \<open>result_get res key = Inr v\<close> says that the parse
  returned a dictionary, and that its entry at \<open>key\<close> is \<open>v\<close> (\<open>None\<close>: the key is not
  set). \<open>observations_of\<close> is the sequence of observations of the dictionary returned,
  empty when the key is not set.
\<close>

definition result_get :: "py_error + parsed_record \<Rightarrow> string \<Rightarrow> py_error + pvalue option" where
  "result_get res key = (case res of Inl e \<Rightarrow> Inl e | Inr r \<Rightarrow> Inr (r key))"

definition observations_of :: "py_error + parsed_record \<Rightarrow> py_error + observation list" where
  "observations_of res =
     (case res of
        Inl e \<Rightarrow> Inl e
      | Inr r \<Rightarrow> Inr (case r ''observations'' of Some (PObs obs) \<Rightarrow> obs | _ \<Rightarrow> []))"

text \<open>
  The loop invariant of the parser (the entry \<^verbatim>\<open>observations\<close> is never a string),
  the observations collected so far, and the effect of one segment on the dictionary
  when nothing raises.
\<close>

definition obs_ok :: "parsed_record \<Rightarrow> bool" where
  "obs_ok r = (case r ''observations'' of Some (PStr _) \<Rightarrow> False | _ \<Rightarrow> True)"

definition obs_list :: "parsed_record \<Rightarrow> observation list" where
  "obs_list r = (case r ''observations'' of Some (PObs obs) \<Rightarrow> obs | _ \<Rightarrow> [])"

definition apply_segment :: "parsed_record \<Rightarrow> string \<Rightarrow> parsed_record" where
  "apply_segment r segment =
     (if is_pid segment then
        (if has_name segment
         then r(''patient_id'' \<mapsto> PStr (seg_fields segment ! 3),
                ''last_name'' \<mapsto> PStr (name_parts_of segment ! 0),
                ''first_name'' \<mapsto> PStr (name_parts_of segment ! 1))
         else r(''patient_id'' \<mapsto> PStr (seg_fields segment ! 3)))
      else if is_obx segment
      then r(''observations'' \<mapsto> PObs (obs_list r @ [observation_of segment]))
      else r)"

text \<open>
  The serializer as the specification words it. A component of the \<^verbatim>\<open>PID\<close> segment
  is the value at a key, printed, and the empty string when the key is absent; the
  given name is the first element of the list \<^verbatim>\<open>given\<close>, and the empty string when
  there is none. A patient resource has, at the key \<^verbatim>\<open>name\<close> if it is present, a
  sequence of mappings whose \<^verbatim>\<open>given\<close>, if present, is a sequence.
\<close>

definition component :: "(json \<Rightarrow> string) \<Rightarrow> (string \<times> json) list \<Rightarrow> string \<Rightarrow> string" where
  "component fmt d key = (case map_of d key of None \<Rightarrow> [] | Some v \<Rightarrow> str_of fmt v)"

definition first_given :: "(json \<Rightarrow> string) \<Rightarrow> (string \<times> json) list \<Rightarrow> string" where
  "first_given fmt name =
     (case map_of name ''given'' of Some (JList (g # _)) \<Rightarrow> str_of fmt g | _ \<Rightarrow> [])"

fun is_name_entry :: "json \<Rightarrow> bool" where
  "is_name_entry (JDict name) =
     (case map_of name ''given'' of None \<Rightarrow> True | Some (JList gs) \<Rightarrow> True | Some _ \<Rightarrow> False)"
| "is_name_entry _ = False"

definition is_patient_resource :: "(string \<times> json) list \<Rightarrow> bool" where
  "is_patient_resource record =
     (case map_of record ''name'' of
        None \<Rightarrow> True
      | Some (JList names) \<Rightarrow> list_all is_name_entry names
      | Some _ \<Rightarrow> False)"

definition spec_toHl7 :: "(json \<Rightarrow> string) \<Rightarrow> (string \<times> json) list \<Rightarrow> string" where
  "spec_toHl7 fmt record =
     (case map_of record ''name'' of
        Some (JList (JDict name # _)) \<Rightarrow>
          MSH_header @ [CR] @
          ''PID|||'' @ component fmt record ''id'' @ ''||'' @ component fmt name ''family'' @
          ''^'' @ first_given fmt name @ ''||'' @ component fmt record ''birthDate'' @
          ''|'' @ component fmt record ''gender''
      | _ \<Rightarrow> MSH_header)"



text \<open>
  The round trip \<^verbatim>\<open>parse(toHl7(x))\<close>, and the records whose serialized components
  contain no carriage return.
\<close>

definition roundtrip :: "(json \<Rightarrow> string) \<Rightarrow> (string \<times> json) list \<Rightarrow> py_error + parsed_record" where
  "roundtrip fmt record =
     (case convert_fhir_to_hl7 fmt record of
        Inl e \<Rightarrow> Inl e
      | Inr message \<Rightarrow> parse_hl7_message message)"

definition cr_free_components :: "(json \<Rightarrow> string) \<Rightarrow> (string \<times> json) list \<Rightarrow> bool" where
  "cr_free_components fmt record =
     (CR \<notin> set (component fmt record ''id'') \<and>
      CR \<notin> set (component fmt record ''birthDate'') \<and>
      CR \<notin> set (component fmt record ''gender'') \<and>
      (case map_of record ''name'' of
         Some (JList (JDict name # _)) \<Rightarrow>
           CR \<notin> set (component fmt name ''family'') \<and> CR \<notin> set (first_given fmt name)
       | _ \<Rightarrow> True))"

text \<open>
  The closed examples below hold strings only, which \<open>str_of\<close> prints without the
  formatter; they are stated with the formatter that prints nothing.
\<close>

definition no_format :: "json \<Rightarrow> string" where
  "no_format v = []"

text \<open>
  Matching without regard to case. Two strings match caselessly when their case
  foldings are equal (the caseless matching of the Unicode standard; the folding is
  \<^verbatim>\<open>str.casefold\<close>). On ASCII the folding maps the 26 capitals to their lower-case
  letters. Outside ASCII, the folding of eleven characters is ASCII text: of \<^verbatim>\<open>U+00DF\<close>
  (sharp s), \<^verbatim>\<open>U+017F\<close> (long s), \<^verbatim>\<open>U+1E9E\<close> (capital sharp s), \<^verbatim>\<open>U+212A\<close> (Kelvin
  sign) and of the seven ligatures \<^verbatim>\<open>U+FB00\<close> to \<^verbatim>\<open>U+FB06\<close>; the folding of every
  other character outside ASCII contains a character outside ASCII and is not
  tabulated: such a character keeps its bytes. \<open>caseless_equal\<close> is used with an ASCII
  name on its right. The supported methods are the caseless matches of the four names
  of the specification.
\<close>

definition char_lower :: "char \<Rightarrow> char" where
  "char_lower c =
     (case map_of (zip ''ABCDEFGHIJKLMNOPQRSTUVWXYZ'' ''abcdefghijklmnopqrstuvwxyz'') c of
        None \<Rightarrow> c
      | Some l \<Rightarrow> l)"

definition casefold_specials :: "(string \<times> string) list" where
  "casefold_specials =
     [([CHR 0xC3, CHR 0x9F], ''ss''),
      ([CHR 0xC5, CHR 0xBF], ''s''),
      ([CHR 0xE1, CHR 0xBA, CHR 0x9E], ''ss''),
      ([CHR 0xE2, CHR 0x84, CHR 0xAA], ''k''),
      ([CHR 0xEF, CHR 0xAC, CHR 0x80], ''ff''),
      ([CHR 0xEF, CHR 0xAC, CHR 0x81], ''fi''),
      ([CHR 0xEF, CHR 0xAC, CHR 0x82], ''fl''),
      ([CHR 0xEF, CHR 0xAC, CHR 0x83], ''ffi''),
      ([CHR 0xEF, CHR 0xAC, CHR 0x84], ''ffl''),
      ([CHR 0xEF, CHR 0xAC, CHR 0x85], ''st''),
      ([CHR 0xEF, CHR 0xAC, CHR 0x86], ''st'')]"

definition cp_casefold :: "string \<Rightarrow> string" where
  "cp_casefold cp =
     (case map_of casefold_specials cp of Some l \<Rightarrow> l | None \<Rightarrow> map char_lower cp)"

definition casefold :: "string \<Rightarrow> string" where
  "casefold s = concat (map cp_casefold (utf8_chars s))"

definition caseless_equal :: "string \<Rightarrow> string \<Rightarrow> bool" where
  "caseless_equal a b \<longleftrightarrow> casefold a = casefold b"


text \<open>
  ASCII text, and equality of two strings up to the case of their ASCII letters, position
  by position: on ASCII text this is caseless matching.
\<close>

definition is_ascii :: "string \<Rightarrow> bool" where
  "is_ascii s = list_all (\<lambda>c. \<not> digit7 c) s"

definition ci_equal :: "string \<Rightarrow> string \<Rightarrow> bool" where
  "ci_equal a b = list_all2 (\<lambda>x y. x = y \<or> char_upper x = y \<or> x = char_upper y) a b"

text \<open>
  The method \<^verbatim>\<open>post\<close> written with a long s (\<^verbatim>\<open>U+017F\<close>, the bytes \<^verbatim>\<open>C5 BF\<close>), and a
  network that refuses every connection.
\<close>

definition long_s_post :: string where
  "long_s_post = ''po'' @ [CHR 0xC5, CHR 0xBF] @ ''t''"


section \<open>The parser never raises and is a fold over the segments\<close>

lemma str_split_not_Nil: "str_split sep s \<noteq> []"
  by (induction s) (auto split: list.splits)

lemma str_split_no_sep: "sep \<notin> set s \<Longrightarrow> str_split sep s = [s]"
  by (induction s) auto

lemma and_then_Inr: "and_then (Inr v) f = f v"
  by (simp add: and_then_def)

lemma seg_type_Nil: "seg_type [] = []"
  by (simp add: seg_type_def seg_fields_def)

lemma getitem_0_fields:
  "getitem (str_split sep s) 0 = Inr (case str_split sep s of [] \<Rightarrow> [] | t # _ \<Rightarrow> t)"
  using str_split_not_Nil [of sep s]
  by (cases "str_split sep s") (simp_all add: getitem_def)

lemma parse_pid_eq:
  "parse_pid r fields =
    Inr (if length fields > 5 then
          (if length (str_split (CHR ''^'') (fields ! 5)) \<ge> 2
           then r(''patient_id'' \<mapsto> PStr (fields ! 3),
                  ''last_name'' \<mapsto> PStr (str_split (CHR ''^'') (fields ! 5) ! 0),
                  ''first_name'' \<mapsto> PStr (str_split (CHR ''^'') (fields ! 5) ! 1))
           else r(''patient_id'' \<mapsto> PStr (fields ! 3)))
         else r)"
  by (simp add: parse_pid_def getitem_def and_then_def Let_def)

lemma parse_obx_eq:
  "obs_ok r \<Longrightarrow> parse_obx r fields =
    Inr (if length fields > 5
         then r(''observations'' \<mapsto> PObs (obs_list r @
                [Observation (fields ! 3) (fields ! 5)
                   (if length fields > 6 then Some (fields ! 6) else None)]))
         else r)"
  by (auto simp: parse_obx_def obs_ok_def obs_list_def getitem_def and_then_def Let_def
           split: option.splits pvalue.splits)

lemma parse_segment_eq:
  assumes "obs_ok r"
  shows "parse_segment r segment = Inr (apply_segment r segment)"
proof (cases "segment = []")
  case True
  then show ?thesis
    by (simp add: parse_segment_def apply_segment_def is_pid_def is_obx_def seg_type_Nil)
next
  case False
  then show ?thesis
    using assms
    by (simp add: parse_segment_def apply_segment_def is_pid_def is_obx_def has_name_def
        name_parts_of_def observation_of_def seg_type_def seg_fields_def Let_def
        getitem_0_fields and_then_Inr parse_pid_eq parse_obx_eq)
qed

lemma obs_ok_apply_segment: "obs_ok r \<Longrightarrow> obs_ok (apply_segment r segment)"
  by (simp add: obs_ok_def apply_segment_def)

lemma parse_segments_eq:
  "obs_ok r \<Longrightarrow> parse_segments r segments = Inr (foldl apply_segment r segments)"
  by (induction segments arbitrary: r)
     (simp_all add: parse_segment_eq and_then_Inr obs_ok_apply_segment)

lemma obs_ok_empty: "obs_ok Map.empty"
  by (simp add: obs_ok_def)

lemma parse_hl7_message_eq:
  "parse_hl7_message m = Inr (foldl apply_segment Map.empty (str_split CR m))"
  by (simp add: parse_hl7_message_def parse_segments_eq obs_ok_empty)

lemma result_get_parse:
  "result_get (parse_hl7_message m) key =
     Inr (foldl apply_segment Map.empty (str_split CR m) key)"
  by (simp add: result_get_def parse_hl7_message_eq)

subsection \<open>What the fold leaves at each key\<close>

lemma has_name_is_pid: "has_name segment \<Longrightarrow> is_pid segment"
  by (simp add: has_name_def)

lemma is_pid_not_obx: "is_pid segment \<Longrightarrow> \<not> is_obx segment"
  by (simp add: is_pid_def is_obx_def)

lemma filter_is_pid:
  "filter is_pid xs =
     filter (\<lambda>s. length (seg_fields s) > 5) (filter (\<lambda>s. seg_type s = ''PID'') xs)"
  by (induction xs) (auto simp: is_pid_def)

lemma foldl_patient_id:
  "foldl apply_segment r segments ''patient_id'' =
     (if filter is_pid segments = [] then r ''patient_id''
      else Some (PStr (seg_fields (last (filter is_pid segments)) ! 3)))"
  by (induction segments rule: rev_induct) (simp_all add: apply_segment_def)

lemma foldl_last_name:
  "foldl apply_segment r segments ''last_name'' =
     (if filter has_name segments = [] then r ''last_name''
      else Some (PStr (name_parts_of (last (filter has_name segments)) ! 0)))"
  by (induction segments rule: rev_induct)
     (auto simp: apply_segment_def dest: has_name_is_pid)

lemma foldl_first_name:
  "foldl apply_segment r segments ''first_name'' =
     (if filter has_name segments = [] then r ''first_name''
      else Some (PStr (name_parts_of (last (filter has_name segments)) ! 1)))"
  by (induction segments rule: rev_induct)
     (auto simp: apply_segment_def dest: has_name_is_pid)

lemma foldl_observations:
  "foldl apply_segment r segments ''observations'' =
     (if filter is_obx segments = [] then r ''observations''
      else Some (PObs (obs_list r @ map observation_of (filter is_obx segments))))"
proof (induction segments rule: rev_induct)
  case Nil
  then show ?case by simp
next
  case (snoc x xs)
  then show ?case
    by (auto simp: apply_segment_def obs_list_def dest: is_pid_not_obx)
qed

section \<open>Properties of the parser\<close>

text \<open>
  C2. \<^verbatim>\<open>parse_hl7_message\<close> is total: for every input string, the empty and the
  malformed ones included, it returns a dictionary and raises no exception.
\<close>

theorem parse_hl7_message_total: "\<exists>result. parse_hl7_message hl7_message = Inr result"
  by (simp add: parse_hl7_message_eq)

text \<open>
  C1. A message with one \<^verbatim>\<open>PID\<close> segment, which has at least 6 fields, field 3
  \<^verbatim>\<open>12345\<close> and field 5 \<^verbatim>\<open>Smith^John\<close>, is parsed to a dictionary with patient_id
  \<^verbatim>\<open>12345\<close>, last_name \<^verbatim>\<open>Smith\<close> and first_name \<^verbatim>\<open>John\<close>, whatever the other
  segments are.
\<close>

theorem parse_one_pid:
  assumes "filter (\<lambda>s. seg_type s = ''PID'') (str_split CR m) = [segment]"
    and "length (seg_fields segment) \<ge> 6"
    and "seg_fields segment ! 3 = ''12345''"
    and "seg_fields segment ! 5 = ''Smith^John''"
  shows "result_get (parse_hl7_message m) ''patient_id'' = Inr (Some (PStr ''12345''))
       \<and> result_get (parse_hl7_message m) ''last_name'' = Inr (Some (PStr ''Smith''))
       \<and> result_get (parse_hl7_message m) ''first_name'' = Inr (Some (PStr ''John''))"
proof -
  from assms(2) have long: "length (seg_fields segment) > 5" by simp
  with assms(1) have pids: "filter is_pid (str_split CR m) = [segment]"
    by (simp add: filter_is_pid)
  have parts: "name_parts_of segment = [''Smith'', ''John'']"
    by (simp add: name_parts_of_def assms(4))
  have "segment \<in> set (filter is_pid (str_split CR m))"
    by (simp add: pids)
  then have "is_pid segment"
    by simp
  then have named: "has_name segment"
    by (simp add: has_name_def parts)
  have "filter has_name (str_split CR m) = filter has_name (filter is_pid (str_split CR m))"
    by (auto simp: has_name_def intro: filter_cong)
  then have names: "filter has_name (str_split CR m) = [segment]"
    using pids named by simp
  show ?thesis
    by (simp add: result_get_parse foldl_patient_id foldl_last_name foldl_first_name
        pids names parts assms(3))
qed

theorem parse_one_pid_witness:
  "filter (\<lambda>s. seg_type s = ''PID'')
     (str_split CR (''MSH|x'' @ [CR] @ ''PID|||12345||Smith^John||19800101|M'' @ [CR] @ ''OBX||NM|h||180|cm''))
     = [''PID|||12345||Smith^John||19800101|M'']
   \<and> length (seg_fields ''PID|||12345||Smith^John||19800101|M'') \<ge> 6
   \<and> result_get (parse_hl7_message
         (''MSH|x'' @ [CR] @ ''PID|||12345||Smith^John||19800101|M'' @ [CR] @ ''OBX||NM|h||180|cm''))
         ''patient_id'' = Inr (Some (PStr ''12345''))
   \<and> result_get (parse_hl7_message
         (''MSH|x'' @ [CR] @ ''PID|||12345||Smith^John||19800101|M'' @ [CR] @ ''OBX||NM|h||180|cm''))
         ''last_name'' = Inr (Some (PStr ''Smith''))
   \<and> result_get (parse_hl7_message
         (''MSH|x'' @ [CR] @ ''PID|||12345||Smith^John||19800101|M'' @ [CR] @ ''OBX||NM|h||180|cm''))
         ''first_name'' = Inr (Some (PStr ''John''))"
proof -
  have h1: "filter (\<lambda>s. seg_type s = ''PID'')
     (str_split CR (''MSH|x'' @ [CR] @ ''PID|||12345||Smith^John||19800101|M'' @ [CR] @ ''OBX||NM|h||180|cm''))
     = [''PID|||12345||Smith^John||19800101|M'']"
    by (simp add: CR_def seg_type_def seg_fields_def)
  have h2: "length (seg_fields ''PID|||12345||Smith^John||19800101|M'') \<ge> 6"
    by (simp add: seg_fields_def)
  have h3: "seg_fields ''PID|||12345||Smith^John||19800101|M'' ! 3 = ''12345''"
    by (simp add: seg_fields_def)
  have h4: "seg_fields ''PID|||12345||Smith^John||19800101|M'' ! 5 = ''Smith^John''"
    by (simp add: seg_fields_def)
  show ?thesis
    using h1 h2 parse_one_pid [OF h1 h2 h3 h4] by blast
qed

text \<open>
  C6. When the only \<^verbatim>\<open>PID\<close> segment of a message has more than 5 fields and its
  field 5 has a single caret component (it contains no \<^verbatim>\<open>^\<close>), the result sets
  neither last_name nor first_name.
\<close>

theorem parse_partial_name:
  assumes "filter (\<lambda>s. seg_type s = ''PID'') (str_split CR m) = [segment]"
    and "length (seg_fields segment) > 5"
    and "CHR ''^'' \<notin> set (seg_fields segment ! 5)"
  shows "result_get (parse_hl7_message m) ''last_name'' = Inr None
       \<and> result_get (parse_hl7_message m) ''first_name'' = Inr None"
proof -
  have "name_parts_of segment = [seg_fields segment ! 5]"
    by (simp add: name_parts_of_def str_split_no_sep assms(3))
  then have "\<not> has_name segment"
    by (simp add: has_name_def)
  moreover have "filter has_name (str_split CR m) =
      filter has_name (filter (\<lambda>s. seg_type s = ''PID'') (str_split CR m))"
    by (auto simp: has_name_def is_pid_def intro: filter_cong)
  ultimately have "filter has_name (str_split CR m) = []"
    by (simp add: assms(1))
  then show ?thesis
    by (simp add: result_get_parse foldl_last_name foldl_first_name)
qed

theorem parse_partial_name_witness:
  "filter (\<lambda>s. seg_type s = ''PID'')
     (str_split CR (''MSH|x'' @ [CR] @ ''PID|||12345||Smith||19800101|M'')) = [''PID|||12345||Smith||19800101|M'']
   \<and> length (seg_fields ''PID|||12345||Smith||19800101|M'') > 5
   \<and> CHR ''^'' \<notin> set (seg_fields ''PID|||12345||Smith||19800101|M'' ! 5)
   \<and> result_get (parse_hl7_message (''MSH|x'' @ [CR] @ ''PID|||12345||Smith||19800101|M''))
        ''last_name'' = Inr None
   \<and> result_get (parse_hl7_message (''MSH|x'' @ [CR] @ ''PID|||12345||Smith||19800101|M''))
        ''first_name'' = Inr None"
proof -
  have segs: "str_split CR (''MSH|x'' @ [CR] @ ''PID|||12345||Smith||19800101|M'')
      = [''MSH|x'', ''PID|||12345||Smith||19800101|M'']"
    by (simp add: CR_def)
  have t1: "seg_type ''MSH|x'' \<noteq> ''PID''"
    by (simp add: seg_type_def seg_fields_def)
  have t2: "seg_type ''PID|||12345||Smith||19800101|M'' = ''PID''"
    by (simp add: seg_type_def seg_fields_def)
  have h1: "filter (\<lambda>s. seg_type s = ''PID'')
     (str_split CR (''MSH|x'' @ [CR] @ ''PID|||12345||Smith||19800101|M'')) = [''PID|||12345||Smith||19800101|M'']"
    unfolding segs using t1 t2 by simp
  have h2: "length (seg_fields ''PID|||12345||Smith||19800101|M'') > 5"
    by (simp add: seg_fields_def)
  have h3: "CHR ''^'' \<notin> set (seg_fields ''PID|||12345||Smith||19800101|M'' ! 5)"
    by (simp add: seg_fields_def)
  show ?thesis
    using h1 h2 h3 parse_partial_name [OF h1 h2 h3] by blast
qed

text \<open>
  C3. The observations of the result are exactly the observations of the \<^verbatim>\<open>OBX\<close>
  segments with more than 5 fields, one for each such segment, in the order of the
  segments in the message: id is field 3, value is field 5, units is field 6 when
  the segment has one and \<^verbatim>\<open>None\<close> otherwise. No other segment adds an observation.
\<close>

theorem parse_observations_in_order:
  "observations_of (parse_hl7_message m) =
     Inr (map observation_of (filter is_obx (str_split CR m)))"
  by (simp add: observations_of_def parse_hl7_message_eq foldl_observations obs_list_def)

text \<open>
  C10. The result has the key \<^verbatim>\<open>observations\<close> if and only if some segment of the
  message is an \<^verbatim>\<open>OBX\<close> segment with more than 5 fields, and the value at that key
  is never the empty list.
\<close>

theorem parse_observations_key:
  "\<exists>result. parse_hl7_message m = Inr result
     \<and> (result ''observations'' \<noteq> None \<longleftrightarrow> (\<exists>segment \<in> set (str_split CR m). is_obx segment))
     \<and> result ''observations'' \<noteq> Some (PObs [])"
  by (auto simp: parse_hl7_message_eq foldl_observations filter_empty_conv)

text \<open>
  C5, as amended. When a message has \<^verbatim>\<open>PID\<close> segments with more than 5 fields,
  patient_id is field 3 of the last of them. last_name and first_name are the first
  two caret components of field 5 of the last such segment whose field 5 has at least
  two components (the keys are not set when there is none): a later \<^verbatim>\<open>PID\<close> segment
  with a one-component name replaces patient_id and leaves the names.
\<close>

theorem parse_last_pid:
  assumes "filter is_pid (str_split CR m) \<noteq> []"
  shows "result_get (parse_hl7_message m) ''patient_id'' =
           Inr (Some (PStr (seg_fields (last (filter is_pid (str_split CR m))) ! 3)))
       \<and> result_get (parse_hl7_message m) ''last_name'' =
           Inr (if filter has_name (str_split CR m) = [] then None
                else Some (PStr (name_parts_of (last (filter has_name (str_split CR m))) ! 0)))
       \<and> result_get (parse_hl7_message m) ''first_name'' =
           Inr (if filter has_name (str_split CR m) = [] then None
                else Some (PStr (name_parts_of (last (filter has_name (str_split CR m))) ! 1)))"
  using assms
  by (simp add: result_get_parse foldl_patient_id foldl_last_name foldl_first_name)

theorem parse_last_pid_witness:
  "filter is_pid (str_split CR (''PID|||1||Smith^John'' @ [CR] @ ''PID|||2||Jones^Mary'' @ [CR] @ ''PID|||3||Lee''))
     = [''PID|||1||Smith^John'', ''PID|||2||Jones^Mary'', ''PID|||3||Lee'']
   \<and> filter has_name (str_split CR (''PID|||1||Smith^John'' @ [CR] @ ''PID|||2||Jones^Mary'' @ [CR] @ ''PID|||3||Lee''))
     = [''PID|||1||Smith^John'', ''PID|||2||Jones^Mary'']
   \<and> result_get (parse_hl7_message (''PID|||1||Smith^John'' @ [CR] @ ''PID|||2||Jones^Mary'' @ [CR] @ ''PID|||3||Lee''))
        ''patient_id'' = Inr (Some (PStr ''3''))
   \<and> result_get (parse_hl7_message (''PID|||1||Smith^John'' @ [CR] @ ''PID|||2||Jones^Mary'' @ [CR] @ ''PID|||3||Lee''))
        ''last_name'' = Inr (Some (PStr ''Jones''))
   \<and> result_get (parse_hl7_message (''PID|||1||Smith^John'' @ [CR] @ ''PID|||2||Jones^Mary'' @ [CR] @ ''PID|||3||Lee''))
        ''first_name'' = Inr (Some (PStr ''Mary''))"
proof -
  have segs: "str_split CR (''PID|||1||Smith^John'' @ [CR] @ ''PID|||2||Jones^Mary'' @ [CR] @ ''PID|||3||Lee'')
      = [''PID|||1||Smith^John'', ''PID|||2||Jones^Mary'', ''PID|||3||Lee'']"
    by (simp add: CR_def)
  have p1: "is_pid ''PID|||1||Smith^John''"
    by (simp add: is_pid_def seg_type_def seg_fields_def)
  have p2: "is_pid ''PID|||2||Jones^Mary''"
    by (simp add: is_pid_def seg_type_def seg_fields_def)
  have p3: "is_pid ''PID|||3||Lee''"
    by (simp add: is_pid_def seg_type_def seg_fields_def)
  have parts1: "name_parts_of ''PID|||1||Smith^John'' = [''Smith'', ''John'']"
    by (simp add: name_parts_of_def seg_fields_def)
  have parts2: "name_parts_of ''PID|||2||Jones^Mary'' = [''Jones'', ''Mary'']"
    by (simp add: name_parts_of_def seg_fields_def)
  have parts3: "name_parts_of ''PID|||3||Lee'' = [''Lee'']"
    by (simp add: name_parts_of_def seg_fields_def)
  have n1: "has_name ''PID|||1||Smith^John''"
    by (simp add: has_name_def p1 parts1)
  have n2: "has_name ''PID|||2||Jones^Mary''"
    by (simp add: has_name_def p2 parts2)
  have n3: "\<not> has_name ''PID|||3||Lee''"
    by (simp add: has_name_def parts3)
  have f3: "seg_fields ''PID|||3||Lee'' ! 3 = ''3''"
    by (simp add: seg_fields_def)
  have pids: "filter is_pid (str_split CR (''PID|||1||Smith^John'' @ [CR] @ ''PID|||2||Jones^Mary'' @ [CR] @ ''PID|||3||Lee''))
     = [''PID|||1||Smith^John'', ''PID|||2||Jones^Mary'', ''PID|||3||Lee'']"
    by (simp only: segs filter.simps p1 p2 p3 if_True)
  have names: "filter has_name (str_split CR (''PID|||1||Smith^John'' @ [CR] @ ''PID|||2||Jones^Mary'' @ [CR] @ ''PID|||3||Lee''))
     = [''PID|||1||Smith^John'', ''PID|||2||Jones^Mary'']"
    by (simp only: segs filter.simps n1 n2 n3 if_True if_False)
  have ne: "filter is_pid (str_split CR (''PID|||1||Smith^John'' @ [CR] @ ''PID|||2||Jones^Mary'' @ [CR] @ ''PID|||3||Lee'')) \<noteq> []"
    by (simp only: pids) simp
  note inst = parse_last_pid [OF ne]
  show ?thesis
    using inst unfolding pids names by (simp add: f3 parts2)
qed

text \<open>
  The claim as first stated (every later \<^verbatim>\<open>PID\<close> segment overwrites all three
  patient fields) fails: here the second and last \<^verbatim>\<open>PID\<close> segment is
  \<^verbatim>\<open>PID|||2||Jones\<close>, and the result has its patient_id together with the names of the
  first segment.
\<close>

theorem parse_two_pids_counterexample:
  "filter is_pid (str_split CR (''PID|||1||Smith^John'' @ [CR] @ ''PID|||2||Jones''))
     = [''PID|||1||Smith^John'', ''PID|||2||Jones'']
   \<and> result_get (parse_hl7_message (''PID|||1||Smith^John'' @ [CR] @ ''PID|||2||Jones'')) ''patient_id''
     = Inr (Some (PStr ''2''))
   \<and> result_get (parse_hl7_message (''PID|||1||Smith^John'' @ [CR] @ ''PID|||2||Jones'')) ''last_name''
     = Inr (Some (PStr ''Smith''))
   \<and> result_get (parse_hl7_message (''PID|||1||Smith^John'' @ [CR] @ ''PID|||2||Jones'')) ''first_name''
     = Inr (Some (PStr ''John''))"
proof -
  have segs: "str_split CR (''PID|||1||Smith^John'' @ [CR] @ ''PID|||2||Jones'')
      = [''PID|||1||Smith^John'', ''PID|||2||Jones'']"
    by (simp add: CR_def)
  have p1: "is_pid ''PID|||1||Smith^John''"
    by (simp add: is_pid_def seg_type_def seg_fields_def)
  have p2: "is_pid ''PID|||2||Jones''"
    by (simp add: is_pid_def seg_type_def seg_fields_def)
  have parts1: "name_parts_of ''PID|||1||Smith^John'' = [''Smith'', ''John'']"
    by (simp add: name_parts_of_def seg_fields_def)
  have parts2: "name_parts_of ''PID|||2||Jones'' = [''Jones'']"
    by (simp add: name_parts_of_def seg_fields_def)
  have n1: "has_name ''PID|||1||Smith^John''"
    by (simp add: has_name_def p1 parts1)
  have n2: "\<not> has_name ''PID|||2||Jones''"
    by (simp add: has_name_def parts2)
  have f3: "seg_fields ''PID|||2||Jones'' ! 3 = ''2''"
    by (simp add: seg_fields_def)
  have pids: "filter is_pid (str_split CR (''PID|||1||Smith^John'' @ [CR] @ ''PID|||2||Jones''))
     = [''PID|||1||Smith^John'', ''PID|||2||Jones'']"
    by (simp only: segs filter.simps p1 p2 if_True)
  have names: "filter has_name (str_split CR (''PID|||1||Smith^John'' @ [CR] @ ''PID|||2||Jones''))
     = [''PID|||1||Smith^John'']"
    by (simp only: segs filter.simps n1 n2 if_True if_False)
  show ?thesis
    unfolding result_get_parse foldl_patient_id foldl_last_name foldl_first_name pids names
    by (simp add: f3 parts1)
qed

section \<open>The serializer against its specification\<close>


lemma str_split_append_sep:
  "str_split sep (a @ sep # b) = str_split sep a @ str_split sep b"
proof (induction a)
  case Nil
  show ?case by simp
next
  case (Cons c a)
  then show ?case
    using str_split_not_Nil [of sep a]
    by (cases "str_split sep a") auto
qed

lemma convert_patient_resource:
  assumes "is_patient_resource d"
  shows "convert_fhir_to_hl7 fmt d = Inr (spec_toHl7 fmt d)"
proof (cases "map_of d ''name''")
  case None
  then show ?thesis
    by (simp add: convert_fhir_to_hl7_def spec_toHl7_def and_then_def)
next
  case (Some v)
  with assms obtain names where v: "v = JList names" and all: "list_all is_name_entry names"
    by (auto simp: is_patient_resource_def split: json.splits)
  show ?thesis
  proof (cases names)
    case Nil
    with Some v show ?thesis
      by (simp add: convert_fhir_to_hl7_def spec_toHl7_def and_then_def dict_get_def)
  next
    case (Cons e es)
    with all have "is_name_entry e" by simp
    then obtain name where e: "e = JDict name"
      and given: "case map_of name ''given'' of None \<Rightarrow> True | Some (JList gs) \<Rightarrow> True | Some _ \<Rightarrow> False"
      by (cases e) auto
    from given have comps: "name_components (JDict name) =
        Inr (dict_get name ''family'' (JStr []),
             case map_of name ''given'' of Some (JList (g # _)) \<Rightarrow> g | _ \<Rightarrow> JStr [])"
      by (auto simp: name_components_def dict_get_def and_then_def
               split: option.splits json.splits list.splits)
    have fam: "str_of fmt (dict_get name ''family'' (JStr [])) = component fmt name ''family''"
      by (simp add: dict_get_def component_def split: option.splits)
    have giv: "str_of fmt (case map_of name ''given'' of Some (JList (g # _)) \<Rightarrow> g | _ \<Rightarrow> JStr [])
        = first_given fmt name"
      by (simp add: first_given_def split: option.splits json.splits list.splits)
    have top: "\<And>k. str_of fmt (dict_get d k (JStr [])) = component fmt d k"
      by (simp add: dict_get_def component_def split: option.splits)
    show ?thesis
      using Some v Cons e
      by (simp add: convert_fhir_to_hl7_def spec_toHl7_def and_then_def comps fam giv top
          dict_get_def [of d "''name''"])
  qed
qed

lemma convert_starts_with_header:
  assumes "convert_fhir_to_hl7 fmt d = Inr s"
  shows "take (length MSH_header) s = MSH_header"
  using assms
  by (auto simp: convert_fhir_to_hl7_def and_then_def Let_def
           split: if_splits sum.splits prod.splits)


lemma CR_notin_MSH_header: "CR \<notin> set MSH_header"
  by (simp add: MSH_header_def CR_def)

lemma seg_type_MSH_header: "seg_type MSH_header = ''MSH''"
  by (simp add: MSH_header_def seg_type_def seg_fields_def)

lemma seg_type_PID: "seg_type (''PID|'' @ rest) = ''PID''"
proof -
  have "str_split (CHR ''|'') (''PID'' @ CHR ''|'' # rest)
      = str_split (CHR ''|'') ''PID'' @ str_split (CHR ''|'') rest"
    by (rule str_split_append_sep)
  then show ?thesis
    by (simp add: seg_type_def seg_fields_def)
qed

lemma not_obx_MSH_header: "\<not> is_obx MSH_header"
  by (simp add: is_obx_def seg_type_MSH_header)

lemma not_obx_PID: "\<not> is_obx (''PID|'' @ rest)"
  using seg_type_PID [of rest] by (simp add: is_obx_def)

lemma spec_toHl7_no_obx:
  assumes "cr_free_components fmt x"
  shows "filter is_obx (str_split CR (spec_toHl7 fmt x)) = []"
proof -
  have header: "filter is_obx (str_split CR MSH_header) = []"
    by (simp add: str_split_no_sep CR_notin_MSH_header not_obx_MSH_header)
  have pid: "filter is_obx (str_split CR (MSH_header @ [CR] @ ''PID|'' @ rest)) = []"
    if "CR \<notin> set rest" for rest
  proof -
    have "CR \<notin> set (''PID|'' @ rest)"
      using that by (simp add: CR_def)
    then have "str_split CR (MSH_header @ CR # (''PID|'' @ rest)) = [MSH_header, ''PID|'' @ rest]"
      by (simp only: str_split_append_sep str_split_no_sep CR_notin_MSH_header
          not_False_eq_True append.simps)
    then show ?thesis
      using not_obx_MSH_header not_obx_PID [of rest] by simp
  qed
  show ?thesis
  proof (cases "\<exists>name rest. map_of x ''name'' = Some (JList (JDict name # rest))")
    case True
    then obtain name rest where n: "map_of x ''name'' = Some (JList (JDict name # rest))"
      by blast
    with assms have "CR \<notin> set (''||'' @ component fmt x ''id'' @ ''||'' @
        component fmt name ''family'' @ ''^'' @ first_given fmt name @ ''||'' @
        component fmt x ''birthDate'' @ ''|'' @ component fmt x ''gender'')"
      by (simp add: cr_free_components_def CR_def)
    from pid [OF this] n show ?thesis
      by (simp add: spec_toHl7_def)
  next
    case False
    then have "spec_toHl7 fmt x = MSH_header"
      by (auto simp: spec_toHl7_def split: option.splits json.splits list.splits)
    with header show ?thesis by simp
  qed
qed

lemma convert_ignores_observations:
  "convert_fhir_to_hl7 fmt ((''observations'', v) # x) = convert_fhir_to_hl7 fmt x"
  by (simp add: convert_fhir_to_hl7_def dict_get_def cong: if_cong)

section \<open>Properties of the serializer\<close>

text \<open>
  C4. Whatever \<^verbatim>\<open>convert_fhir_to_hl7\<close> returns starts with the fixed \<^verbatim>\<open>MSH\<close> header.
  On a patient resource it returns what the specification says: the header alone,
  with no separator after it, when \<^verbatim>\<open>name\<close> is absent or empty, and otherwise the
  header, a carriage return and the segment
  \<^verbatim>\<open>PID|||{id}||{family}^{given}||{birthDate}|{gender}\<close>, an absent component being the
  empty string. The empty record gives the header; the record of the specification's
  example gives the header, a carriage return and \<^verbatim>\<open>PID|||7||Doe^Jane||19900101|F\<close>.
\<close>

theorem convert_fhir_to_hl7_output:
  "(convert_fhir_to_hl7 fmt d = Inr s \<longrightarrow> take (length MSH_header) s = MSH_header)
   \<and> (is_patient_resource d \<longrightarrow> convert_fhir_to_hl7 fmt d = Inr (spec_toHl7 fmt d))
   \<and> convert_fhir_to_hl7 fmt [] = Inr MSH_header
   \<and> convert_fhir_to_hl7 fmt
        [(''name'', JList [JDict [(''family'', JStr ''Doe''), (''given'', JList [JStr ''Jane''])]]),
         (''id'', JStr ''7''), (''gender'', JStr ''F''), (''birthDate'', JStr ''19900101'')]
       = Inr (MSH_header @ [CR] @ ''PID|||7||Doe^Jane||19900101|F'')"
proof (intro conjI impI)
  assume "convert_fhir_to_hl7 fmt d = Inr s"
  then show "take (length MSH_header) s = MSH_header"
    by (rule convert_starts_with_header)
next
  assume "is_patient_resource d"
  then show "convert_fhir_to_hl7 fmt d = Inr (spec_toHl7 fmt d)"
    by (rule convert_patient_resource)
next
  have "is_patient_resource []"
    by (simp add: is_patient_resource_def)
  then have "convert_fhir_to_hl7 fmt [] = Inr (spec_toHl7 fmt [])"
    by (rule convert_patient_resource)
  then show "convert_fhir_to_hl7 fmt [] = Inr MSH_header"
    by (simp add: spec_toHl7_def)
next
  let ?d = "[(''name'', JList [JDict [(''family'', JStr ''Doe''), (''given'', JList [JStr ''Jane''])]]),
         (''id'', JStr ''7''), (''gender'', JStr ''F''), (''birthDate'', JStr ''19900101'')]"
  have "is_patient_resource ?d"
    by (simp add: is_patient_resource_def)
  then have "convert_fhir_to_hl7 fmt ?d = Inr (spec_toHl7 fmt ?d)"
    by (rule convert_patient_resource)
  moreover have "spec_toHl7 fmt ?d = MSH_header @ [CR] @ ''PID|||7||Doe^Jane||19900101|F''"
    by (simp add: spec_toHl7_def component_def first_given_def)
  ultimately show "convert_fhir_to_hl7 fmt ?d
      = Inr (MSH_header @ [CR] @ ''PID|||7||Doe^Jane||19900101|F'')"
    by simp
qed

theorem convert_fhir_to_hl7_output_witness:
  "is_patient_resource [(''name'', JList [JDict [(''family'', JStr ''Roe'')]]), (''id'', JStr ''9'')]
   \<and> convert_fhir_to_hl7 no_format
        [(''name'', JList [JDict [(''family'', JStr ''Roe'')]]), (''id'', JStr ''9'')]
       = Inr (MSH_header @ [CR] @ ''PID|||9||Roe^|||'')
   \<and> take (length MSH_header) (MSH_header @ [CR] @ ''PID|||9||Roe^|||'') = MSH_header"
proof -
  let ?d = "[(''name'', JList [JDict [(''family'', JStr ''Roe'')]]), (''id'', JStr ''9'')]"
  have shape: "is_patient_resource ?d"
    by (simp add: is_patient_resource_def)
  have spec: "spec_toHl7 no_format ?d = MSH_header @ [CR] @ ''PID|||9||Roe^|||''"
    by (simp add: spec_toHl7_def component_def first_given_def)
  note inst = convert_fhir_to_hl7_output [of no_format ?d "MSH_header @ [CR] @ ''PID|||9||Roe^|||''"]
  from inst shape have "convert_fhir_to_hl7 no_format ?d = Inr (spec_toHl7 no_format ?d)"
    by blast
  then have conv: "convert_fhir_to_hl7 no_format ?d = Inr (MSH_header @ [CR] @ ''PID|||9||Roe^|||'')"
    by (simp only: spec)
  with inst have "take (length MSH_header) (MSH_header @ [CR] @ ''PID|||9||Roe^|||'') = MSH_header"
    by blast
  with shape conv show ?thesis by blast
qed




text \<open>
  C8, as amended. For a patient resource whose serialized components contain no
  carriage return, \<^verbatim>\<open>parse(toHl7(x))\<close> has no entry \<^verbatim>\<open>observations\<close>. The serializer
  never reads the key \<^verbatim>\<open>observations\<close>: a record with observations and the same
  record without them give the same message and the same round trip, so the round
  trip loses them.
\<close>

theorem roundtrip_loses_observations:
  "(is_patient_resource x \<and> cr_free_components fmt x \<longrightarrow>
      result_get (roundtrip fmt x) ''observations'' = Inr None)
   \<and> convert_fhir_to_hl7 fmt ((''observations'', v) # x) = convert_fhir_to_hl7 fmt x
   \<and> roundtrip fmt ((''observations'', v) # x) = roundtrip fmt x"
proof (intro conjI impI)
  assume a: "is_patient_resource x \<and> cr_free_components fmt x"
  then have "roundtrip fmt x = parse_hl7_message (spec_toHl7 fmt x)"
    by (simp add: roundtrip_def convert_patient_resource)
  moreover from a have "filter is_obx (str_split CR (spec_toHl7 fmt x)) = []"
    by (simp add: spec_toHl7_no_obx)
  ultimately show "result_get (roundtrip fmt x) ''observations'' = Inr None"
    by (simp add: result_get_parse foldl_observations)
next
  show "convert_fhir_to_hl7 fmt ((''observations'', v) # x) = convert_fhir_to_hl7 fmt x"
    by (rule convert_ignores_observations)
next
  show "roundtrip fmt ((''observations'', v) # x) = roundtrip fmt x"
    by (simp add: roundtrip_def convert_ignores_observations)
qed

theorem roundtrip_loses_observations_witness:
  "is_patient_resource [(''name'', JList [JDict [(''family'', JStr ''Doe'')]]), (''gender'', JStr ''F'')]
   \<and> cr_free_components no_format
        [(''name'', JList [JDict [(''family'', JStr ''Doe'')]]), (''gender'', JStr ''F'')]
   \<and> result_get (roundtrip no_format
        [(''name'', JList [JDict [(''family'', JStr ''Doe'')]]), (''gender'', JStr ''F'')])
        ''observations'' = Inr None
   \<and> roundtrip no_format
        ((''observations'', JList [JDict [(''id'', JStr ''h''), (''value'', JStr ''180'')]]) #
         [(''name'', JList [JDict [(''family'', JStr ''Doe'')]]), (''gender'', JStr ''F'')])
      = roundtrip no_format
         [(''name'', JList [JDict [(''family'', JStr ''Doe'')]]), (''gender'', JStr ''F'')]"
proof -
  let ?x = "[(''name'', JList [JDict [(''family'', JStr ''Doe'')]]), (''gender'', JStr ''F'')]"
  have shape: "is_patient_resource ?x"
    by (simp add: is_patient_resource_def)
  have free: "cr_free_components no_format ?x"
    by (simp add: cr_free_components_def component_def first_given_def CR_def)
  note inst = roundtrip_loses_observations
    [of ?x no_format "JList [JDict [(''id'', JStr ''h''), (''value'', JStr ''180'')]]"]
  from inst shape free show ?thesis by blast
qed

text \<open>
  The claim as first stated (for every patient resource the round trip has no entry
  \<^verbatim>\<open>observations\<close>) fails: nothing is escaped, so a gender that holds a carriage
  return and an \<^verbatim>\<open>OBX\<close> segment comes back as an observation.
\<close>

theorem roundtrip_observations_counterexample:
  "is_patient_resource
     [(''name'', JList [JDict [(''family'', JStr ''Doe'')]]),
      (''gender'', JStr (''F'' @ [CR] @ ''OBX|||h||180|cm''))]
   \<and> observations_of (roundtrip no_format
       [(''name'', JList [JDict [(''family'', JStr ''Doe'')]]),
        (''gender'', JStr (''F'' @ [CR] @ ''OBX|||h||180|cm''))])
     = Inr [Observation ''h'' ''180'' (Some ''cm'')]"
proof -
  let ?x = "[(''name'', JList [JDict [(''family'', JStr ''Doe'')]]),
      (''gender'', JStr (''F'' @ [CR] @ ''OBX|||h||180|cm''))]"
  have shape: "is_patient_resource ?x"
    by (simp add: is_patient_resource_def)
  have spec: "spec_toHl7 no_format ?x
      = MSH_header @ CR # (''PID|||||Doe^|||F'' @ CR # ''OBX|||h||180|cm'')"
    by (simp add: spec_toHl7_def component_def first_given_def)
  have pid: "CR \<notin> set ''PID|||||Doe^|||F''"
    by (simp add: CR_def)
  have obx: "CR \<notin> set ''OBX|||h||180|cm''"
    by (simp add: CR_def)
  have s1: "str_split CR (''PID|||||Doe^|||F'' @ CR # ''OBX|||h||180|cm'')
      = [''PID|||||Doe^|||F'', ''OBX|||h||180|cm'']"
    using str_split_append_sep [of CR "''PID|||||Doe^|||F''" "''OBX|||h||180|cm''"]
      str_split_no_sep [OF pid] str_split_no_sep [OF obx]
    by simp
  have segs: "str_split CR (MSH_header @ CR # (''PID|||||Doe^|||F'' @ CR # ''OBX|||h||180|cm''))
      = [MSH_header, ''PID|||||Doe^|||F'', ''OBX|||h||180|cm'']"
    using str_split_append_sep [of CR MSH_header "''PID|||||Doe^|||F'' @ CR # ''OBX|||h||180|cm''"]
      str_split_no_sep [OF CR_notin_MSH_header] s1
    by simp
  have o2: "\<not> is_obx ''PID|||||Doe^|||F''"
    by (simp add: is_obx_def seg_type_def seg_fields_def)
  have o3: "is_obx ''OBX|||h||180|cm''"
    by (simp add: is_obx_def seg_type_def seg_fields_def)
  have ob: "observation_of ''OBX|||h||180|cm'' = Observation ''h'' ''180'' (Some ''cm'')"
    by (simp add: observation_of_def seg_fields_def)
  have filt: "filter is_obx [MSH_header, ''PID|||||Doe^|||F'', ''OBX|||h||180|cm'']
      = [''OBX|||h||180|cm'']"
    by (simp only: filter.simps not_obx_MSH_header o2 o3 if_True if_False)
  have obs: "foldl apply_segment Map.empty
        [MSH_header, ''PID|||||Doe^|||F'', ''OBX|||h||180|cm''] ''observations''
      = Some (PObs [Observation ''h'' ''180'' (Some ''cm'')])"
    by (simp only: foldl_observations filt) (simp add: ob obs_list_def)
  have rt: "roundtrip no_format ?x = Inr (foldl apply_segment Map.empty
        [MSH_header, ''PID|||||Doe^|||F'', ''OBX|||h||180|cm''])"
    by (simp only: roundtrip_def convert_patient_resource [OF shape] spec sum.case
        parse_hl7_message_eq segs)
  have "observations_of (roundtrip no_format ?x) = Inr [Observation ''h'' ''180'' (Some ''cm'')]"
    by (simp only: rt observations_of_def sum.case obs option.case pvalue.case)
  with shape show ?thesis by blast
qed

section \<open>Properties of the outbound call\<close>

text \<open>The two foldings of a character of ASCII.\<close>

lemma char_lower_upper: "char_lower (char_upper c) = char_lower c"
  by (auto simp: char_upper_def char_lower_def split: if_splits)

lemma char_upper_lower: "char_upper (char_lower c) = char_upper c"
  by (auto simp: char_upper_def char_lower_def split: if_splits)

lemma char_lower_or_upper: "c = char_lower c \<or> c = char_upper c"
  by (auto simp: char_upper_def char_lower_def split: if_splits)


lemma char_ci_iff:
  "(x = y \<or> char_upper x = y \<or> x = char_upper y) \<longleftrightarrow> char_lower x = char_lower y"
  by (metis char_lower_upper char_upper_lower char_lower_or_upper)

text \<open>On ASCII text, a character is a byte.\<close>

lemma utf8_chars_ascii: "list_all (\<lambda>c. \<not> digit7 c) s \<Longrightarrow> utf8_chars s = map (\<lambda>c. [c]) s"
proof (induction s)
  case Nil
  show ?case by simp
next
  case (Cons c cs)
  then have cs: "list_all (\<lambda>c. \<not> digit7 c) cs"
    by simp
  have "takeWhile utf8_continuation cs = []" and "dropWhile utf8_continuation cs = cs"
    using cs by (cases cs; simp add: utf8_continuation_def)+
  then show ?case
    using Cons.IH [OF cs] by simp
qed

lemma cp_upper_single: "cp_upper [c] = [char_upper c]"
  by (simp add: cp_upper_def upper_specials_def)

lemma cp_casefold_single: "cp_casefold [c] = [char_lower c]"
  by (simp add: cp_casefold_def casefold_specials_def)

lemma upper_ascii: "is_ascii s \<Longrightarrow> upper s = map char_upper s"
  by (simp add: is_ascii_def upper_def utf8_chars_ascii cp_upper_single comp_def)

lemma casefold_ascii: "is_ascii s \<Longrightarrow> casefold s = map char_lower s"
  by (simp add: is_ascii_def casefold_def utf8_chars_ascii cp_casefold_single comp_def)

lemma caseless_equal_ascii:
  assumes "is_ascii a" and "is_ascii b"
  shows "caseless_equal a b \<longleftrightarrow> ci_equal a b"
proof -
  have "caseless_equal a b \<longleftrightarrow> list_all2 (=) (map char_lower a) (map char_lower b)"
    using assms by (simp add: caseless_equal_def casefold_ascii list.rel_eq)
  also have "\<dots> \<longleftrightarrow> list_all2 (\<lambda>x y. char_lower x = char_lower y) a b"
    by (simp add: list.rel_map)
  also have "\<dots> \<longleftrightarrow> ci_equal a b"
    by (simp add: ci_equal_def char_ci_iff)
  finally show ?thesis .
qed




















text \<open>
  On ASCII text caseless matching is equality up to the case of the letters (lemma
  \<open>caseless_equal_ascii\<close>). Outside ASCII it is wider: \<^verbatim>\<open>post\<close> written with a long s
  has five bytes and is not \<^verbatim>\<open>POST\<close> up to the case of its ASCII letters, yet it is a
  caseless match of \<^verbatim>\<open>POST\<close> and is sent as a POST.
\<close>

lemma long_s_post_not_ci_equal: "\<not> ci_equal long_s_post ''POST''"
  by (simp add: ci_equal_def long_s_post_def char_upper_def)

end
